theory Spec2Isabelle
  imports Complex_Main
begin

section \<open>JavaScript numbers\<close>

text \<open>
  Token counts are integer-valued Numbers and are modelled as \<open>int\<close>; prices and
  multipliers are decimal Numbers and are modelled as exact rationals.
  \<open>Math.round\<close> rounds to the nearest integer, halves towards plus infinity.
\<close>

definition Math_round :: "rat \<Rightarrow> int" where
  "Math_round x = \<lfloor>x + 1 / 2\<rfloor>"

section \<open>services/aiProviders/mockProvider.js\<close>

text \<open>
  The configuration object handed to a provider's \<open>initialize\<close>; the constructor's
  default \<open>{}\<close> has every field undefined.
\<close>

record provider_config =
  timeout :: "nat option"
  retries :: "nat option"
  apiKey :: "string option"
  organization :: "string option"
  model :: "string option"

datatype provider_class = MockAIProvider | OpenAIProvider

text \<open>A provider instance: its class and the fields set by the constructor and by \<open>initialize\<close>.\<close>

record provider =
  cls :: provider_class
  name :: string
  initialized :: bool
  config :: provider_config






text \<open>
  The two things a provider asks of its surroundings: whether the \<open>openai\<close> module can be
  imported, and the error message of \<open>models.list\<close> when the OpenAI API does not answer.
\<close>

record runtime =
  openai_installed :: bool
  openai_models_list :: "string option"

text \<open>Of the object \<open>getStatus\<close> returns, the name, the status and the message.\<close>

record provider_status =
  st_name :: string
  st_status :: string
  st_message :: string

definition empty_config :: provider_config where
  "empty_config =
     \<lparr>timeout = None, retries = None, apiKey = None, organization = None, model = None\<rparr>"

text \<open>\<open>new ProviderClass()\<close>.\<close>

definition new_provider :: "provider_class \<Rightarrow> provider" where
  "new_provider c =
     \<lparr>cls = c,
      name = (case c of MockAIProvider \<Rightarrow> ''mock'' | OpenAIProvider \<Rightarrow> ''openai''),
      initialized = False,
      config = empty_config\<rparr>"

text \<open>\<open>{...this.config, ...config}\<close>: the fields \<open>config\<close> defines win.\<close>

definition spread :: "provider_config \<Rightarrow> provider_config \<Rightarrow> provider_config" where
  "spread a b =
     \<lparr>timeout = (case timeout b of None \<Rightarrow> timeout a | Some v \<Rightarrow> Some v),
      retries = (case retries b of None \<Rightarrow> retries a | Some v \<Rightarrow> Some v),
      apiKey = (case apiKey b of None \<Rightarrow> apiKey a | Some v \<Rightarrow> Some v),
      organization = (case organization b of None \<Rightarrow> organization a | Some v \<Rightarrow> Some v),
      model = (case model b of None \<Rightarrow> model a | Some v \<Rightarrow> Some v)\<rparr>"

text \<open>
  \<open>initialize\<close> returns the error it throws, if any, and the instance as it leaves it:
  both classes store the configuration before anything can fail.
\<close>

definition initialize :: "runtime \<Rightarrow> provider_config \<Rightarrow> provider \<Rightarrow> string option \<times> provider" where
  "initialize rt cfg this =
     (let this1 = this\<lparr>config := spread (config this) cfg\<rparr>
      in case cls this of
           MockAIProvider \<Rightarrow> (None, this1\<lparr>initialized := True\<rparr>)
         | OpenAIProvider \<Rightarrow>
             if apiKey (config this1) = None \<or> apiKey (config this1) = Some []
             then (Some ''OpenAI API key is required'', this1)
             else if \<not> openai_installed rt
             then (Some ''OpenAI provider initialization failed'', this1)
             else (None, this1\<lparr>initialized := True\<rparr>))"

definition getStatus :: "runtime \<Rightarrow> provider \<Rightarrow> provider_status" where
  "getStatus rt this =
     (case cls this of
        MockAIProvider \<Rightarrow>
          \<lparr>st_name = name this, st_status = ''operational'',
           st_message = ''Mock provider is working (simulated)''\<rparr>
      | OpenAIProvider \<Rightarrow>
          if \<not> initialized this
          then \<lparr>st_name = name this, st_status = ''not_initialized'',
                st_message = ''OpenAI provider not initialized''\<rparr>
          else
            (case openai_models_list rt of
               None \<Rightarrow>
                 \<lparr>st_name = name this, st_status = ''operational'',
                  st_message = ''OpenAI API is working''\<rparr>
             | Some message \<Rightarrow>
                 \<lparr>st_name = name this, st_status = ''error'',
                  st_message = ''OpenAI API error: '' @ message\<rparr>))"

section \<open>services/aiProviderManager.js\<close>

record manager_config =
  mc_timeout :: "nat option"
  mc_retries :: "nat option"
  openaiApiKey :: "string option"
  openaiOrganization :: "string option"
  openaiModel :: "string option"
  stabilityApiKey :: "string option"
  stabilityModel :: "string option"
  customProviderConfig :: provider_config

text \<open>The registry (a Map, in insertion order), the current pointer and the configuration.\<close>

record manager =
  providers :: "(string \<times> provider_class) list"
  currentProvider :: "provider option"
  mconfig :: manager_config

text \<open>\<open>x || d\<close> on an optional number and on an optional string.\<close>

definition or_num :: "nat option \<Rightarrow> nat \<Rightarrow> nat" where
  "or_num x d = (case x of None \<Rightarrow> d | Some v \<Rightarrow> if v = 0 then d else v)"

definition or_str :: "string option \<Rightarrow> string \<Rightarrow> string" where
  "or_str x d = (case x of None \<Rightarrow> d | Some v \<Rightarrow> if v = [] then d else v)"

definition getProviderConfig :: "manager \<Rightarrow> string \<Rightarrow> provider_config" where
  "getProviderConfig m providerName =
     (let baseConfig = empty_config\<lparr>timeout := Some (or_num (mc_timeout (mconfig m)) 30000),
                                     retries := Some (or_num (mc_retries (mconfig m)) 3)\<rparr>
      in if providerName = ''openai''
         then baseConfig\<lparr>apiKey := openaiApiKey (mconfig m),
                         organization := openaiOrganization (mconfig m),
                         model := Some (or_str (openaiModel (mconfig m)) ''dall-e-3'')\<rparr>
         else if providerName = ''stability''
         then baseConfig\<lparr>apiKey := stabilityApiKey (mconfig m),
                         model := Some (or_str (stabilityModel (mconfig m))
                                          ''stable-diffusion-xl-1024-v1-0'')\<rparr>
         else if providerName = ''custom''
         then spread baseConfig (customProviderConfig (mconfig m))
         else baseConfig)"

fun join :: "string list \<Rightarrow> string" where
  "join [] = []"
| "join [k] = k"
| "join (k # ks) = k @ '', '' @ join ks"

text \<open>
  \<open>setProvider\<close> returns the error it throws, if any, and the manager as it leaves it:
  the pointer is assigned before the new instance is initialized.
\<close>

definition setProvider :: "runtime \<Rightarrow> string \<Rightarrow> manager \<Rightarrow> string option \<times> manager" where
  "setProvider rt providerName m =
     (case map_of (providers m) providerName of
        None \<Rightarrow>
          (Some (''Provider '' @ [CHR 0x27] @ providerName @ [CHR 0x27]
                 @ '' not found. Available: '' @ join (map fst (providers m))), m)
      | Some ProviderClass \<Rightarrow>
          (case initialize rt (getProviderConfig m providerName) (new_provider ProviderClass) of
             (err, instance) \<Rightarrow> (err, m\<lparr>currentProvider := Some instance\<rparr>)))"

text \<open>\<open>getProviderStatus\<close> throws when no provider is current.\<close>

definition getProviderStatus :: "runtime \<Rightarrow> manager \<Rightarrow> string + provider_status" where
  "getProviderStatus rt m =
     (case currentProvider m of
        None \<Rightarrow> Inl ''No AI provider is currently set''
      | Some p \<Rightarrow> Inr (getStatus rt p))"

datatype test_result = Test_ok string provider_status | Test_failed string string

definition success :: "test_result \<Rightarrow> bool" where
  "success r = (case r of Test_ok _ _ \<Rightarrow> True | Test_failed _ _ \<Rightarrow> False)"

definition testProvider :: "runtime \<Rightarrow> string \<Rightarrow> manager \<Rightarrow> test_result \<times> manager" where
  "testProvider rt providerName m =
     (let originalProvider = currentProvider m
      in case setProvider rt providerName m of
           (Some err, m1) \<Rightarrow> (Test_failed providerName err, m1)
         | (None, m1) \<Rightarrow>
             (case getProviderStatus rt m1 of
                Inl err \<Rightarrow> (Test_failed providerName err, m1)
              | Inr status \<Rightarrow>
                  (Test_ok providerName status,
                   (case originalProvider of
                      None \<Rightarrow> m1
                    | Some p \<Rightarrow> m1\<lparr>currentProvider := originalProvider\<rparr>))))"

section \<open>Strings\<close>

text \<open>\<open>Number.prototype.toString\<close> on an integer, and \<open>String.prototype.toLowerCase\<close> on ASCII.\<close>

fun digits :: "nat \<Rightarrow> string" where
  "digits n =
     (if n < 10 then [char_of (48 + n)] else digits (n div 10) @ [char_of (48 + n mod 10)])"

declare digits.simps [simp del]

definition toString :: "int \<Rightarrow> string" where
  "toString i = (if i < 0 then CHR ''-'' # digits (nat (- i)) else digits (nat i))"

definition toLowerCase :: "string \<Rightarrow> string" where
  "toLowerCase s =
     map (\<lambda>c. if 65 \<le> (of_char c :: nat) \<and> (of_char c :: nat) \<le> 90
              then char_of (of_char c + (32::nat)) else c) s"

section \<open>Documents (models/User.js, TokenPackage.js, Payment, Token)\<close>

text \<open>
  Object ids are natural numbers and dates are natural numbers (milliseconds).
  Of the User document only the fields the ledger code touches are kept.
\<close>

record user =
  user_id :: nat
  usr_tokens :: int

record token_package =
  pkg_id :: nat
  pkg_name :: string
  pkg_tokens :: int
  pkg_price :: rat
  pkg_currency :: string
  isActive :: bool
  maxPurchases :: "int option"
  expiresAt :: "nat option"
  bonusTokens :: int
  discountPercentage :: rat


datatype payment_status = Pending | Succeeded | Failed | Cancelled | Disputed

record payment_metadata =
  md_baseTokens :: "int option"
  md_bonusTokens :: "int option"
  md_discountPercentage :: "rat option"
  md_originalPrice :: "rat option"

record payment =
  pay_id :: nat
  pay_user :: nat
  pay_packageId :: nat
  stripePaymentIntentId :: string
  pay_amount :: int
  pay_currency :: string
  pay_tokens :: int
  pay_status :: payment_status
  paymentMethod :: string
  pay_metadata :: payment_metadata
  pay_createdAt :: nat
  pay_updatedAt :: nat

datatype token_type = Purchase | Spend | Refund | Bonus | Expired | Admin_adjustment

text \<open>The free-form \<open>metadata\<close> of a ledger entry keeps the fields the routes put there.\<close>

record token_metadata =
  tm_paymentIntentId :: "string option"
  tm_amount :: "int option"
  tm_currency :: "string option"
  tm_baseTokens :: "int option"
  tm_bonusTokens :: "int option"
  tm_discountPercentage :: "rat option"

record token =
  tok_user :: nat
  tok_type :: token_type
  tok_amount :: int
  tok_description :: string
  tok_category :: string
  tok_paymentId :: "nat option"
  tok_packageId :: "nat option"
  aiProvider :: "string option"
  generationType :: "string option"
  imageCount :: "int option"
  imageSize :: "string option"
  prompt :: "string option"
  sessionId :: "string option"
  userAgent :: "string option"
  ipAddress :: "string option"
  tok_metadata :: token_metadata

definition no_metadata :: token_metadata where
  "no_metadata =
     \<lparr>tm_paymentIntentId = None, tm_amount = None, tm_currency = None, tm_baseTokens = None,
      tm_bonusTokens = None, tm_discountPercentage = None\<rparr>"

text \<open>The collections, each in insertion order.\<close>

record db =
  users :: "user list"
  packages :: "token_package list"
  payments :: "payment list"
  ledger :: "token list"

section \<open>The outside world\<close>

text \<open>
  The argument of \<open>paymentIntents.create\<close>: the amount, the currency and the metadata
  (whose \<open>discountPercentage\<close> is kept as the number it prints).
\<close>

record intent_params =
  ip_amount :: int
  ip_currency :: string
  ip_userId :: nat
  ip_packageId :: nat
  ip_tokens :: string
  ip_baseTokens :: string
  ip_bonusTokens :: string
  ip_discountPercentage :: rat

record payment_intent =
  pi_id :: string
  client_secret :: string
  pi_status :: string

text \<open>The object carried by a webhook event: a payment intent or a dispute.\<close>

record event_object =
  obj_id :: string
  obj_payment_intent :: string

record stripe_event =
  event_type :: string
  data_object :: event_object

text \<open>
  Every awaited call to the processor or to the database, with what it was called on.
  A handler's result lists the calls it made, in order.
\<close>

datatype io =
    Stripe_create intent_params
  | Stripe_retrieve string
  | TokenPackage_findById nat
  | Payment_countDocuments nat nat
  | Payment_findOne string "nat option"
  | Payment_save payment
  | User_findById nat
  | User_save user
  | Token_save token

definition is_stripe_call :: "io \<Rightarrow> bool" where
  "is_stripe_call c =
     (case c of Stripe_create _ \<Rightarrow> True | Stripe_retrieve _ \<Rightarrow> True | _ \<Rightarrow> False)"

text \<open>The Stripe client; the payments routes hold none when no secret key is configured.\<close>

record stripe_api =
  create_intent :: "intent_params \<Rightarrow> payment_intent"
  retrieve_intent :: "string \<Rightarrow> payment_intent"

text \<open>
  What a request finds around it: the Stripe client, which awaited calls reject (throw),
  the clock, the object id given to a new document, and the result of
  \<open>stripe.webhooks.constructEvent\<close> on a body and a signature header with the configured
  secret (an error message, or the event).
\<close>

record env =
  stripe :: "stripe_api option"
  rejects :: "io \<Rightarrow> bool"
  now :: nat
  freshId :: nat
  constructEvent :: "string \<Rightarrow> string option \<Rightarrow> string + stripe_event"

text \<open>The surroundings in which no awaited call rejects have \<open>rejects e = never\<close>.\<close>

definition never :: "io \<Rightarrow> bool" where
  "never c = False"

text \<open>The bodies the routes answer with.\<close>

datatype body =
    Message string
  | Text string
  | Received
  | Intent_created string nat
  | Payment_confirmed string int int "token_package option"
  | Tokens_changed string int token

record reply =
  code :: nat
  content :: body

record result =
  response :: reply
  store :: db
  calls :: "io list"

definition respond :: "nat \<Rightarrow> body \<Rightarrow> db \<Rightarrow> io list \<Rightarrow> result" where
  "respond c b d cs = \<lparr>response = \<lparr>code = c, content = b\<rparr>, store = d, calls = cs\<rparr>"

section \<open>Queries\<close>

text \<open>
  \<open>findOne\<close> and \<open>findById\<close> give the first matching document; the model returns its
  position, and saving the document writes that position back.
\<close>

fun find_idx :: "('a \<Rightarrow> bool) \<Rightarrow> 'a list \<Rightarrow> nat option" where
  "find_idx P [] = None"
| "find_idx P (x # xs) = (if P x then Some 0 else map_option Suc (find_idx P xs))"

definition countDocuments :: "('a \<Rightarrow> bool) \<Rightarrow> 'a list \<Rightarrow> int" where
  "countDocuments P xs = int (length (filter P xs))"

section \<open>routes/payments.js\<close>

text \<open>\<open>package.maxPurchases\<close> as a condition: set and not zero.\<close>

definition purchase_limit :: "token_package \<Rightarrow> int option" where
  "purchase_limit package =
     (case maxPurchases package of
        None \<Rightarrow> None
      | Some m \<Rightarrow> if m = 0 then None else Some m)"

definition totalTokens :: "token_package \<Rightarrow> int" where
  "totalTokens package = pkg_tokens package + bonusTokens package"

definition finalPrice :: "token_package \<Rightarrow> rat" where
  "finalPrice package =
     (if discountPercentage package > 0
      then pkg_price package * (1 - discountPercentage package / 100)
      else pkg_price package)"

definition intent_params_of :: "nat \<Rightarrow> token_package \<Rightarrow> intent_params" where
  "intent_params_of uid package =
     \<lparr>ip_amount = Math_round (finalPrice package * 100),
      ip_currency = toLowerCase (pkg_currency package),
      ip_userId = uid,
      ip_packageId = pkg_id package,
      ip_tokens = toString (totalTokens package),
      ip_baseTokens = toString (pkg_tokens package),
      ip_bonusTokens = toString (bonusTokens package),
      ip_discountPercentage = discountPercentage package\<rparr>"

definition new_payment :: "env \<Rightarrow> nat \<Rightarrow> token_package \<Rightarrow> payment_intent \<Rightarrow> payment" where
  "new_payment e uid package paymentIntent =
     \<lparr>pay_id = freshId e,
      pay_user = uid,
      pay_packageId = pkg_id package,
      stripePaymentIntentId = pi_id paymentIntent,
      pay_amount = Math_round (finalPrice package * 100),
      pay_currency = ''usd'',
      pay_tokens = totalTokens package,
      pay_status = Pending,
      paymentMethod = ''card'',
      pay_metadata =
        \<lparr>md_baseTokens = Some (pkg_tokens package),
         md_bonusTokens = Some (bonusTokens package),
         md_discountPercentage = Some (discountPercentage package),
         md_originalPrice = Some (pkg_price package)\<rparr>,
      pay_createdAt = now e,
      pay_updatedAt = now e\<rparr>"

definition create_payment_intent :: "env \<Rightarrow> nat \<Rightarrow> nat \<Rightarrow> db \<Rightarrow> result" where
  "create_payment_intent e uid packageId d =
     (case stripe e of
        None \<Rightarrow> respond 503 (Message ''Payment service is not configured'') d []
      | Some api \<Rightarrow>
          let failure = respond 500 (Message ''Failed to create payment intent'');
              c1 = [TokenPackage_findById packageId]
          in if rejects e (TokenPackage_findById packageId) then failure d c1
             else
               (case find (\<lambda>p. pkg_id p = packageId) (packages d) of
                  None \<Rightarrow> respond 400 (Message ''Invalid or inactive package selected'') d c1
                | Some package \<Rightarrow>
                    if \<not> isActive package
                    then respond 400 (Message ''Invalid or inactive package selected'') d c1
                    else if (case expiresAt package of None \<Rightarrow> False | Some t \<Rightarrow> now e > t)
                    then respond 400 (Message ''Package has expired'') d c1
                    else
                      let count = Payment_countDocuments uid (pkg_id package);
                          userPurchases =
                            countDocuments
                              (\<lambda>p. pay_user p = uid \<and> pay_packageId p = pkg_id package
                                    \<and> pay_status p = Succeeded)
                              (payments d);
                          c2 = (case purchase_limit package of
                                  None \<Rightarrow> c1 | Some m \<Rightarrow> c1 @ [count])
                      in if purchase_limit package \<noteq> None \<and> rejects e count then failure d c2
                         else if (case purchase_limit package of
                                    None \<Rightarrow> False | Some m \<Rightarrow> userPurchases \<ge> m)
                         then respond 400 (Message ''Purchase limit reached for this package'') d c2
                         else
                           let params = intent_params_of uid package;
                               c3 = c2 @ [Stripe_create params]
                           in if rejects e (Stripe_create params) then failure d c3
                              else
                                let paymentIntent = create_intent api params;
                                    payment = new_payment e uid package paymentIntent;
                                    c4 = c3 @ [Payment_save payment]
                                in if rejects e (Payment_save payment) then failure d c4
                                   else respond 200
                                          (Intent_created (client_secret paymentIntent)
                                             (pay_id payment))
                                          (d\<lparr>payments := payments d @ [payment]\<rparr>) c4))"





section \<open>routes/webhooks.js\<close>

definition stripe_entry :: "string \<Rightarrow> payment \<Rightarrow> token" where
  "stripe_entry paymentIntentId p =
     \<lparr>tok_user = pay_user p,
      tok_type = Purchase,
      tok_amount = pay_tokens p,
      tok_description = ''Purchased '' @ toString (pay_tokens p) @ '' tokens via Stripe'',
      tok_category = ''other'',
      tok_paymentId = Some (pay_id p),
      tok_packageId = None,
      aiProvider = None, generationType = None, imageCount = None, imageSize = None,
      prompt = None, sessionId = None, userAgent = None, ipAddress = None,
      tok_metadata =
        no_metadata\<lparr>tm_paymentIntentId := Some paymentIntentId,
                      tm_amount := Some (pay_amount p),
                      tm_currency := Some (pay_currency p)\<rparr>\<rparr>"

text \<open>
  The three handlers catch whatever they throw, so each returns only the store as it
  leaves it and the calls it made.
\<close>

definition handlePaymentSuccess :: "env \<Rightarrow> event_object \<Rightarrow> db \<Rightarrow> db \<times> io list" where
  "handlePaymentSuccess e paymentIntent d =
     (let c1 = [Payment_findOne (obj_id paymentIntent) None]
      in if rejects e (Payment_findOne (obj_id paymentIntent) None) then (d, c1)
         else
           (case find_idx (\<lambda>p. stripePaymentIntentId p = obj_id paymentIntent) (payments d) of
              None \<Rightarrow> (d, c1)
            | Some i \<Rightarrow>
                if pay_status (payments d ! i) = Succeeded then (d, c1)
                else
                  let payment = (payments d ! i)\<lparr>pay_status := Succeeded,
                                                 pay_updatedAt := now e\<rparr>;
                      c2 = c1 @ [Payment_save payment];
                      d1 = d\<lparr>payments := (payments d)[i := payment]\<rparr>;
                      c3 = c2 @ [User_findById (pay_user payment)]
                  in if rejects e (Payment_save payment) then (d, c2)
                     else if rejects e (User_findById (pay_user payment)) then (d1, c3)
                     else
                       (case find_idx (\<lambda>u. user_id u = pay_user payment) (users d1) of
                          None \<Rightarrow> (d1, c3)
                        | Some j \<Rightarrow>
                            let user = (users d1 ! j)
                                         \<lparr>usr_tokens := usr_tokens (users d1 ! j)
                                                         + pay_tokens payment\<rparr>;
                                c4 = c3 @ [User_save user];
                                d2 = d1\<lparr>users := (users d1)[j := user]\<rparr>;
                                tokenTransaction = stripe_entry (obj_id paymentIntent) payment;
                                c5 = c4 @ [Token_save tokenTransaction]
                            in if rejects e (User_save user) then (d1, c4)
                               else if rejects e (Token_save tokenTransaction) then (d2, c5)
                               else (d2\<lparr>ledger := ledger d2 @ [tokenTransaction]\<rparr>, c5))))"

definition handlePaymentFailure :: "env \<Rightarrow> event_object \<Rightarrow> db \<Rightarrow> db \<times> io list" where
  "handlePaymentFailure e paymentIntent d =
     (let c1 = [Payment_findOne (obj_id paymentIntent) None]
      in if rejects e (Payment_findOne (obj_id paymentIntent) None) then (d, c1)
         else
           (case find_idx (\<lambda>p. stripePaymentIntentId p = obj_id paymentIntent) (payments d) of
              None \<Rightarrow> (d, c1)
            | Some i \<Rightarrow>
                let payment = (payments d ! i)\<lparr>pay_status := Failed, pay_updatedAt := now e\<rparr>;
                    c2 = c1 @ [Payment_save payment]
                in if rejects e (Payment_save payment) then (d, c2)
                   else (d\<lparr>payments := (payments d)[i := payment]\<rparr>, c2)))"

definition handleDisputeCreated :: "env \<Rightarrow> event_object \<Rightarrow> db \<Rightarrow> db \<times> io list" where
  "handleDisputeCreated e dispute d =
     (let c1 = [Payment_findOne (obj_payment_intent dispute) None]
      in if rejects e (Payment_findOne (obj_payment_intent dispute) None) then (d, c1)
         else
           (case find_idx (\<lambda>p. stripePaymentIntentId p = obj_payment_intent dispute)
                   (payments d) of
              None \<Rightarrow> (d, c1)
            | Some i \<Rightarrow>
                let payment = (payments d ! i)\<lparr>pay_status := Disputed, pay_updatedAt := now e\<rparr>;
                    c2 = c1 @ [Payment_save payment]
                in if rejects e (Payment_save payment) then (d, c2)
                   else (d\<lparr>payments := (payments d)[i := payment]\<rparr>, c2)))"

definition handle_event :: "env \<Rightarrow> stripe_event \<Rightarrow> db \<Rightarrow> db \<times> io list" where
  "handle_event e event d =
     (if event_type event = ''payment_intent.succeeded''
      then handlePaymentSuccess e (data_object event) d
      else if event_type event = ''payment_intent.payment_failed''
      then handlePaymentFailure e (data_object event) d
      else if event_type event = ''charge.dispute.created''
      then handleDisputeCreated e (data_object event) d
      else (d, []))"

text \<open>\<open>router.post('/stripe')\<close>, on the raw body and the \<open>stripe-signature\<close> header.\<close>

definition stripe_webhook :: "env \<Rightarrow> string \<Rightarrow> string option \<Rightarrow> db \<Rightarrow> result" where
  "stripe_webhook e raw sig d =
     (case constructEvent e raw sig of
        Inl message \<Rightarrow> respond 400 (Text (''Webhook Error: '' @ message)) d []
      | Inr event \<Rightarrow>
          (case handle_event e event d of (d', cs) \<Rightarrow> respond 200 Received d' cs))"

text \<open>
  A handler stops at the first call that rejects, so it threw exactly when the last call
  it made rejected. \<open>is_payment_call\<close> singles out the calls on the Payment collection.
\<close>

definition threw :: "env \<Rightarrow> io list \<Rightarrow> bool" where
  "threw e cs = (cs \<noteq> [] \<and> rejects e (last cs))"

definition is_payment_call :: "io \<Rightarrow> bool" where
  "is_payment_call c =
     (case c of Payment_findOne _ _ \<Rightarrow> True | Payment_save _ \<Rightarrow> True | _ \<Rightarrow> False)"

section \<open>routes/tokens.js\<close>

text \<open>
  What the two routes read of the request besides its body, and the bodies themselves;
  the amount is an integer when present, and the free-form \<open>metadata\<close> object of a body
  is left out.
\<close>

record request_info =
  x_session_id :: "string option"
  user_agent :: "string option"
  req_ip :: "string option"
  remoteAddress :: "string option"

record spend_body =
  sb_amount :: "int option"
  sb_description :: "string option"
  sb_category :: "string option"
  sb_aiProvider :: "string option"
  sb_generationType :: "string option"
  sb_imageCount :: "int option"
  sb_imageSize :: "string option"
  sb_prompt :: "string option"

record add_body =
  ab_amount :: "int option"
  ab_description :: "string option"
  ab_type :: "token_type option"
  ab_category :: "string option"
  ab_packageId :: "nat option"

text \<open>\<open>x || null\<close> on an optional string, and a destructuring default.\<close>

definition or_null :: "string option \<Rightarrow> string option" where
  "or_null x = (case x of None \<Rightarrow> None | Some v \<Rightarrow> if v = [] then None else Some v)"

definition default_to :: "'a \<Rightarrow> 'a option \<Rightarrow> 'a" where
  "default_to v x = (case x of None \<Rightarrow> v | Some y \<Rightarrow> y)"

definition spend_entry :: "nat \<Rightarrow> request_info \<Rightarrow> spend_body \<Rightarrow> int \<Rightarrow> string \<Rightarrow> token" where
  "spend_entry uid req b amount description =
     \<lparr>tok_user = uid,
      tok_type = Spend,
      tok_amount = - amount,
      tok_description = description,
      tok_category = default_to ''ai_generation'' (sb_category b),
      tok_paymentId = None,
      tok_packageId = None,
      aiProvider = sb_aiProvider b,
      generationType = sb_generationType b,
      imageCount = sb_imageCount b,
      imageSize = sb_imageSize b,
      prompt = sb_prompt b,
      sessionId = or_null (x_session_id req),
      userAgent = or_null (user_agent req),
      ipAddress = (case or_null (req_ip req) of None \<Rightarrow> remoteAddress req | Some a \<Rightarrow> Some a),
      tok_metadata = no_metadata\<rparr>"

definition add_entry :: "nat \<Rightarrow> request_info \<Rightarrow> add_body \<Rightarrow> int \<Rightarrow> string \<Rightarrow> token" where
  "add_entry uid req b amount description =
     \<lparr>tok_user = uid,
      tok_type = default_to Bonus (ab_type b),
      tok_amount = amount,
      tok_description = description,
      tok_category = default_to ''admin_bonus'' (ab_category b),
      tok_paymentId = None,
      tok_packageId = ab_packageId b,
      aiProvider = None, generationType = None, imageCount = None, imageSize = None,
      prompt = None,
      sessionId = or_null (x_session_id req),
      userAgent = or_null (user_agent req),
      ipAddress = (case or_null (req_ip req) of None \<Rightarrow> remoteAddress req | Some a \<Rightarrow> Some a),
      tok_metadata = no_metadata\<rparr>"

text \<open>
  \<open>Promise.all([tokenTransaction.save(), user.save()])\<close> starts both writes; when one
  rejects the other is still carried out.
\<close>

definition save_both :: "env \<Rightarrow> token \<Rightarrow> nat \<Rightarrow> user \<Rightarrow> db \<Rightarrow> db" where
  "save_both e tokenTransaction j u d =
     (let d1 = (if rejects e (Token_save tokenTransaction) then d
                else d\<lparr>ledger := ledger d @ [tokenTransaction]\<rparr>)
      in if rejects e (User_save u) then d1 else d1\<lparr>users := (users d1)[j := u]\<rparr>)"

definition spend :: "env \<Rightarrow> nat \<Rightarrow> request_info \<Rightarrow> spend_body \<Rightarrow> db \<Rightarrow> result" where
  "spend e uid req b d =
     (case sb_amount b of
        None \<Rightarrow> respond 400 (Message ''Invalid amount'') d []
      | Some amount \<Rightarrow>
          if amount = 0 \<or> amount \<le> 0 then respond 400 (Message ''Invalid amount'') d []
          else
            (case or_null (sb_description b) of
               None \<Rightarrow> respond 400 (Message ''Description is required'') d []
             | Some description \<Rightarrow>
                 let failure = respond 500 (Message ''Server error'');
                     c1 = [User_findById uid]
                 in if rejects e (User_findById uid) then failure d c1
                    else
                      (case find_idx (\<lambda>u. user_id u = uid) (users d) of
                         None \<Rightarrow> failure d c1
                       | Some j \<Rightarrow>
                           if usr_tokens (users d ! j) < amount
                           then respond 400 (Message ''Insufficient tokens'') d c1
                           else
                             let tokenTransaction = spend_entry uid req b amount description;
                                 user = (users d ! j)
                                          \<lparr>usr_tokens := usr_tokens (users d ! j) - amount\<rparr>;
                                 c2 = c1 @ [Token_save tokenTransaction, User_save user];
                                 d' = save_both e tokenTransaction j user d
                             in if rejects e (Token_save tokenTransaction)
                                   \<or> rejects e (User_save user)
                                then failure d' c2
                                else respond 200
                                       (Tokens_changed ''Tokens spent successfully''
                                          (usr_tokens user) tokenTransaction)
                                       d' c2)))"

definition add :: "env \<Rightarrow> nat \<Rightarrow> request_info \<Rightarrow> add_body \<Rightarrow> db \<Rightarrow> result" where
  "add e uid req b d =
     (case ab_amount b of
        None \<Rightarrow> respond 400 (Message ''Invalid amount'') d []
      | Some amount \<Rightarrow>
          if amount = 0 \<or> amount \<le> 0 then respond 400 (Message ''Invalid amount'') d []
          else
            (case or_null (ab_description b) of
               None \<Rightarrow> respond 400 (Message ''Description is required'') d []
             | Some description \<Rightarrow>
                 let failure = respond 500 (Message ''Server error'');
                     c1 = [User_findById uid]
                 in if rejects e (User_findById uid) then failure d c1
                    else
                      (case find_idx (\<lambda>u. user_id u = uid) (users d) of
                         None \<Rightarrow> failure d c1
                       | Some j \<Rightarrow>
                           let tokenTransaction = add_entry uid req b amount description;
                               user = (users d ! j)
                                        \<lparr>usr_tokens := usr_tokens (users d ! j) + amount\<rparr>;
                               c2 = c1 @ [Token_save tokenTransaction, User_save user];
                               d' = save_both e tokenTransaction j user d
                           in if rejects e (Token_save tokenTransaction)
                                 \<or> rejects e (User_save user)
                              then failure d' c2
                              else respond 200
                                     (Tokens_changed ''Tokens added successfully''
                                        (usr_tokens user) tokenTransaction)
                                     d' c2)))"

section \<open>Sequences of ledger requests\<close>





text \<open>A user's cached balance, and the sum of the amounts of that user's ledger entries.\<close>

definition balance :: "nat \<Rightarrow> db \<Rightarrow> int option" where
  "balance uid d =
     map_option (\<lambda>j. usr_tokens (users d ! j)) (find_idx (\<lambda>u. user_id u = uid) (users d))"



section \<open>Example data\<close>

text \<open>
  A store with one user holding ten tokens (granted by one bonus entry), two packages,
  and one pending payment of that user for the first package.
\<close>

definition alice :: user where
  "alice = \<lparr>user_id = 1, usr_tokens = 10\<rparr>"

definition starter :: token_package where
  "starter =
     \<lparr>pkg_id = 5, pkg_name = ''Starter'', pkg_tokens = 50, pkg_price = 999 / 100,
      pkg_currency = ''USD'', isActive = True, maxPurchases = Some 1, expiresAt = None,
      bonusTokens = 0, discountPercentage = 0\<rparr>"

definition pending_payment :: payment where
  "pending_payment =
     \<lparr>pay_id = 3, pay_user = 1, pay_packageId = 5, stripePaymentIntentId = ''pi_1'',
      pay_amount = 999, pay_currency = ''usd'', pay_tokens = 50, pay_status = Pending,
      paymentMethod = ''card'',
      pay_metadata = \<lparr>md_baseTokens = Some 50, md_bonusTokens = Some 0,
                      md_discountPercentage = Some 0, md_originalPrice = Some (999 / 100)\<rparr>,
      pay_createdAt = 100, pay_updatedAt = 100\<rparr>"

definition welcome_bonus :: token where
  "welcome_bonus =
     \<lparr>tok_user = 1, tok_type = Bonus, tok_amount = 10, tok_description = ''Welcome'',
      tok_category = ''admin_bonus'', tok_paymentId = None, tok_packageId = None,
      aiProvider = None, generationType = None, imageCount = None, imageSize = None,
      prompt = None, sessionId = None, userAgent = None, ipAddress = None,
      tok_metadata = no_metadata\<rparr>"

definition sale :: token_package where
  "sale =
     \<lparr>pkg_id = 6, pkg_name = ''Sale'', pkg_tokens = 100, pkg_price = 20,
      pkg_currency = ''USD'', isActive = True, maxPurchases = None, expiresAt = None,
      bonusTokens = 20, discountPercentage = 25\<rparr>"

definition shop :: db where
  "shop = \<lparr>users = [alice], packages = [starter, sale], payments = [pending_payment],
           ledger = [welcome_bonus]\<rparr>"

text \<open>
  Surroundings in which nothing fails: Stripe is configured and reports every intent as
  succeeded, and a webhook body signed \<open>good\<close> is read as an event of the kind the body
  names, about the intent \<open>pi_1\<close>.
\<close>

definition test_api :: stripe_api where
  "test_api =
     \<lparr>create_intent =
        (\<lambda>p. \<lparr>pi_id = ''pi_2'', client_secret = ''pi_2_secret'',
              pi_status = ''requires_payment_method''\<rparr>),
      retrieve_intent =
        (\<lambda>i. \<lparr>pi_id = i, client_secret = ''pi_1_secret'', pi_status = ''succeeded''\<rparr>)\<rparr>"

definition event_about_pi_1 :: "string \<Rightarrow> stripe_event" where
  "event_about_pi_1 kind =
     \<lparr>event_type = kind, data_object = \<lparr>obj_id = ''pi_1'', obj_payment_intent = ''pi_1''\<rparr>\<rparr>"

definition test_constructEvent :: "string \<Rightarrow> string option \<Rightarrow> string + stripe_event" where
  "test_constructEvent raw sig =
     (if sig = Some ''good'' then Inr (event_about_pi_1 raw)
      else Inl ''No signatures found matching the expected signature for payload'')"

definition sandbox :: env where
  "sandbox =
     \<lparr>stripe = Some test_api, rejects = never, now = 1000, freshId = 4,
      constructEvent = test_constructEvent\<rparr>"

text \<open>Surroundings in which only the lookup of a user fails.\<close>

definition user_lookup_fails :: "io \<Rightarrow> bool" where
  "user_lookup_fails c = (case c of User_findById _ \<Rightarrow> True | _ \<Rightarrow> False)"

definition flaky :: env where
  "flaky = sandbox\<lparr>rejects := user_lookup_fails\<rparr>"

text \<open>A store whose only package has a purchase limit of zero.\<close>

definition zero_limit :: token_package where
  "zero_limit = starter\<lparr>pkg_id := 7, pkg_name := ''Closed'', maxPurchases := Some 0\<rparr>"

definition shop_with_zero_limit :: db where
  "shop_with_zero_limit = shop\<lparr>packages := [zero_limit]\<rparr>"

text \<open>Surroundings without a Stripe secret key.\<close>

definition unconfigured :: env where
  "unconfigured = sandbox\<lparr>stripe := None\<rparr>"

text \<open>Surroundings in which every call fails, and the store without its payment.\<close>

definition always :: "io \<Rightarrow> bool" where
  "always c = True"

definition offline :: env where
  "offline = sandbox\<lparr>rejects := always\<rparr>"

definition shop_without_payments :: db where
  "shop_without_payments = shop\<lparr>payments := []\<rparr>"

definition no_info :: request_info where
  "no_info = \<lparr>x_session_id = None, user_agent = None, req_ip = None, remoteAddress = None\<rparr>"

definition spend_of :: "int \<Rightarrow> string option \<Rightarrow> spend_body" where
  "spend_of a descr =
     \<lparr>sb_amount = Some a, sb_description = descr, sb_category = None, sb_aiProvider = None,
      sb_generationType = None, sb_imageCount = None, sb_imageSize = None, sb_prompt = None\<rparr>"



text \<open>
  A manager with the two providers of the repository registered: before any provider
  was set, and with an initialized mock provider current. No OpenAI key is configured
  in the first two; the third has one.
\<close>

definition no_manager_config :: manager_config where
  "no_manager_config =
     \<lparr>mc_timeout = None, mc_retries = None, openaiApiKey = None, openaiOrganization = None,
      openaiModel = None, stabilityApiKey = None, stabilityModel = None,
      customProviderConfig = empty_config\<rparr>"

definition idle_manager :: manager where
  "idle_manager =
     \<lparr>providers = [(''mock'', MockAIProvider), (''openai'', OpenAIProvider)],
      currentProvider = None, mconfig = no_manager_config\<rparr>"

definition mock_manager :: manager where
  "mock_manager =
     idle_manager\<lparr>currentProvider :=
       Some \<lparr>cls = MockAIProvider, name = ''mock'', initialized = True,
             config = empty_config\<lparr>timeout := Some 30000, retries := Some 3\<rparr>\<rparr>\<rparr>"

definition keyed_manager :: manager where
  "keyed_manager = mock_manager\<lparr>mconfig := no_manager_config\<lparr>openaiApiKey := Some ''sk-test''\<rparr>\<rparr>"

definition test_runtime :: runtime where
  "test_runtime = \<lparr>openai_installed = True, openai_models_list = None\<rparr>"

section \<open>Properties of the mock provider's pricing\<close>


section \<open>Queries: facts\<close>



lemmas example_defs =
  shop_def alice_def starter_def sale_def pending_payment_def welcome_bonus_def sandbox_def
  test_api_def test_constructEvent_def event_about_pi_1_def never_def

section \<open>The ledger and the cached balance\<close>







text \<open>
  C3 (as the code has it): a spend request for more than the user's balance changes
  nothing: the store is the same afterwards, the only call made is the lookup of the
  user, and the reply is not 200. The reply is 400 unless that lookup fails, and it is
  400 "Insufficient tokens" when the amount is positive, a description is given and the
  lookup succeeds; the checks of the amount and of the description come first and
  answer with their own messages.
\<close>

theorem spend_insufficient_rejected:
  assumes "balance uid d = Some bal" and "sb_amount b = Some amount" and "bal < amount"
  shows "store (spend e uid req b d) = d
       \<and> ledger (store (spend e uid req b d)) = ledger d
       \<and> balance uid (store (spend e uid req b d)) = Some bal
       \<and> set (calls (spend e uid req b d)) \<subseteq> {User_findById uid}
       \<and> code (response (spend e uid req b d)) \<noteq> 200
       \<and> (\<not> rejects e (User_findById uid) \<longrightarrow> code (response (spend e uid req b d)) = 400)
       \<and> (0 < amount \<and> or_null (sb_description b) \<noteq> None \<and> rejects e (User_findById uid)
            \<longrightarrow> code (response (spend e uid req b d)) = 500)
       \<and> (0 < amount \<and> or_null (sb_description b) \<noteq> None \<and> \<not> rejects e (User_findById uid)
            \<longrightarrow> response (spend e uid req b d)
                 = \<lparr>code = 400, content = Message ''Insufficient tokens''\<rparr>)"
  using assms
  by (auto simp: spend_def balance_def respond_def Let_def split: option.splits)

theorem spend_insufficient_rejected_witness:
  "balance 1 shop = Some 10 \<and> sb_amount (spend_of 100 (Some ''image'')) = Some 100
   \<and> (10::int) < 100 \<and> or_null (sb_description (spend_of 100 (Some ''image''))) \<noteq> None
   \<and> \<not> rejects sandbox (User_findById 1)
   \<and> store (spend sandbox 1 no_info (spend_of 100 (Some ''image'')) shop) = shop
   \<and> response (spend sandbox 1 no_info (spend_of 100 (Some ''image'')) shop)
       = \<lparr>code = 400, content = Message ''Insufficient tokens''\<rparr>"
proof -
  have h1: "balance 1 shop = Some 10"
    by (simp add: balance_def example_defs)
  have h2: "sb_amount (spend_of 100 (Some ''image'')) = Some 100"
    by (simp add: spend_of_def)
  have h3: "(10::int) < 100" by simp
  have h4: "or_null (sb_description (spend_of 100 (Some ''image''))) \<noteq> None"
    by (simp add: spend_of_def or_null_def)
  have h5: "\<not> rejects sandbox (User_findById 1)"
    by (simp add: sandbox_def never_def)
  from spend_insufficient_rejected [OF h1 h2 h3, of sandbox no_info] h1 h2 h4 h5
  show ?thesis by simp
qed

text \<open>
  A request for 100 tokens against a balance of 10 that carries no description is
  answered 400 "Description is required", not 400 "Insufficient tokens".
\<close>

theorem spend_insufficient_message_counterexample:
  "balance 1 shop = Some 10 \<and> sb_amount (spend_of 100 None) = Some 100 \<and> (10::int) < 100
   \<and> response (spend sandbox 1 no_info (spend_of 100 None) shop)
       = \<lparr>code = 400, content = Message ''Description is required''\<rparr>
   \<and> response (spend sandbox 1 no_info (spend_of 100 None) shop)
       \<noteq> \<lparr>code = 400, content = Message ''Insufficient tokens''\<rparr>"
  by (simp add: balance_def example_defs no_info_def spend_of_def spend_def respond_def or_null_def)

section \<open>Payment confirmation\<close>






section \<open>The webhook\<close>

lemmas webhook_defs =
  stripe_webhook_def handle_event_def handlePaymentSuccess_def handlePaymentFailure_def
  handleDisputeCreated_def respond_def Let_def

text \<open>
  C4: when the signature check of a webhook request fails, the reply is 400 with the
  error's message, the store is unchanged and no call to the database is made; when the
  check yields an event, the reply is 200 with \<open>received: true\<close>.
\<close>

theorem webhook_signature_checked:
  "(\<forall>message. constructEvent e raw sig = Inl message \<longrightarrow>
      stripe_webhook e raw sig d = respond 400 (Text (''Webhook Error: '' @ message)) d [])
   \<and> (\<forall>event. constructEvent e raw sig = Inr event \<longrightarrow>
        response (stripe_webhook e raw sig d) = \<lparr>code = 200, content = Received\<rparr>)"
proof (cases "constructEvent e raw sig")
  case (Inl message)
  then show ?thesis by (simp add: stripe_webhook_def)
next
  case (Inr event)
  obtain d' cs where "handle_event e event d = (d', cs)" by (cases "handle_event e event d")
  with Inr show ?thesis by (simp add: stripe_webhook_def respond_def)
qed

theorem webhook_signature_checked_witness:
  "constructEvent sandbox ''payment_intent.succeeded'' (Some ''forged'')
     = Inl ''No signatures found matching the expected signature for payload''
   \<and> code (response (stripe_webhook sandbox ''payment_intent.succeeded'' (Some ''forged'') shop)) = 400
   \<and> store (stripe_webhook sandbox ''payment_intent.succeeded'' (Some ''forged'') shop) = shop
   \<and> calls (stripe_webhook sandbox ''payment_intent.succeeded'' (Some ''forged'') shop) = []
   \<and> constructEvent sandbox ''payment_intent.succeeded'' (Some ''good'')
     = Inr (event_about_pi_1 ''payment_intent.succeeded'')
   \<and> response (stripe_webhook sandbox ''payment_intent.succeeded'' (Some ''good'') shop)
     = \<lparr>code = 200, content = Received\<rparr>"
proof -
  have bad: "constructEvent sandbox ''payment_intent.succeeded'' (Some ''forged'')
     = Inl ''No signatures found matching the expected signature for payload''"
    by (simp add: sandbox_def test_constructEvent_def)
  have good: "constructEvent sandbox ''payment_intent.succeeded'' (Some ''good'')
     = Inr (event_about_pi_1 ''payment_intent.succeeded'')"
    by (simp add: sandbox_def test_constructEvent_def)
  from webhook_signature_checked [of sandbox "''payment_intent.succeeded''" "Some ''forged''" shop]
    webhook_signature_checked [of sandbox "''payment_intent.succeeded''" "Some ''good''" shop]
    bad good
  show ?thesis by (simp add: respond_def)
qed






lemma handlePaymentSuccess_unmatched:
  "find_idx (\<lambda>p. stripePaymentIntentId p = obj_id ob) (payments d) = None \<Longrightarrow>
   fst (handlePaymentSuccess e ob d) = d"
  by (simp add: handlePaymentSuccess_def Let_def)

lemma handlePaymentSuccess_threw:
  "threw e (snd (handlePaymentSuccess e ob d)) \<Longrightarrow>
   ledger (fst (handlePaymentSuccess e ob d)) = ledger d
   \<and> (is_payment_call (last (snd (handlePaymentSuccess e ob d)))
        \<longrightarrow> fst (handlePaymentSuccess e ob d) = d)
   \<and> (\<not> is_payment_call (last (snd (handlePaymentSuccess e ob d))) \<longrightarrow>
        (\<exists>i. find_idx (\<lambda>p. stripePaymentIntentId p = obj_id ob) (payments d) = Some i
           \<and> payments (fst (handlePaymentSuccess e ob d)) =
               (payments d)[i := (payments d ! i)\<lparr>pay_status := Succeeded,
                                                  pay_updatedAt := now e\<rparr>]))"
  by (auto simp: handlePaymentSuccess_def threw_def is_payment_call_def Let_def
      split: option.splits if_splits)

lemma handlePaymentFailure_threw:
  "threw e (snd (handlePaymentFailure e ob d)) \<Longrightarrow> fst (handlePaymentFailure e ob d) = d"
  by (auto simp: handlePaymentFailure_def threw_def Let_def split: option.splits if_splits)

lemma handleDisputeCreated_threw:
  "threw e (snd (handleDisputeCreated e ob d)) \<Longrightarrow> fst (handleDisputeCreated e ob d) = d"
  by (auto simp: handleDisputeCreated_def threw_def Let_def split: option.splits if_splits)

lemma handle_event_threw:
  assumes "threw e (snd (handle_event e ev d))"
  shows "ledger (fst (handle_event e ev d)) = ledger d
       \<and> (event_type ev \<noteq> ''payment_intent.succeeded''
            \<or> is_payment_call (last (snd (handle_event e ev d)))
          \<longrightarrow> fst (handle_event e ev d) = d)
       \<and> (event_type ev = ''payment_intent.succeeded''
            \<and> \<not> is_payment_call (last (snd (handle_event e ev d))) \<longrightarrow>
            (\<exists>i. find_idx (\<lambda>p. stripePaymentIntentId p = obj_id (data_object ev)) (payments d)
                   = Some i
               \<and> payments (fst (handle_event e ev d)) =
                   (payments d)[i := (payments d ! i)\<lparr>pay_status := Succeeded,
                                                      pay_updatedAt := now e\<rparr>]))"
proof (cases "event_type ev = ''payment_intent.succeeded''")
  case True
  then have "handle_event e ev d = handlePaymentSuccess e (data_object ev) d"
    by (simp add: handle_event_def)
  with True assms show ?thesis
    using handlePaymentSuccess_threw [of e "data_object ev" d] by simp
next
  case False
  with assms have "fst (handle_event e ev d) = d"
    by (auto simp: handle_event_def handlePaymentFailure_threw handleDisputeCreated_threw
        split: if_splits)
  with False show ?thesis by simp
qed

text \<open>
  C10 (as the code has it): a webhook request whose signature is valid is answered 200
  with \<open>received: true\<close> whatever its handling does. A payment-succeeded event that matches
  no payment leaves the store unchanged. When the handling throws, no ledger entry is
  written, and the store is unchanged if the event is not a payment-succeeded event or
  if the call that failed was a call on the Payment collection; after a later failure
  in a payment-succeeded event the payment found is succeeded all the same.
\<close>

theorem webhook_swallows_failures:
  assumes "constructEvent e raw sig = Inr ev"
  shows "response (stripe_webhook e raw sig d) = \<lparr>code = 200, content = Received\<rparr>
       \<and> (event_type ev = ''payment_intent.succeeded''
            \<and> find_idx (\<lambda>p. stripePaymentIntentId p = obj_id (data_object ev)) (payments d) = None
          \<longrightarrow> store (stripe_webhook e raw sig d) = d)
       \<and> (threw e (calls (stripe_webhook e raw sig d)) \<longrightarrow>
            ledger (store (stripe_webhook e raw sig d)) = ledger d
          \<and> (event_type ev \<noteq> ''payment_intent.succeeded''
               \<or> is_payment_call (last (calls (stripe_webhook e raw sig d)))
             \<longrightarrow> store (stripe_webhook e raw sig d) = d)
          \<and> (event_type ev = ''payment_intent.succeeded''
               \<and> \<not> is_payment_call (last (calls (stripe_webhook e raw sig d))) \<longrightarrow>
               (\<exists>i. find_idx (\<lambda>p. stripePaymentIntentId p = obj_id (data_object ev))
                       (payments d) = Some i
                  \<and> payments (store (stripe_webhook e raw sig d)) =
                      (payments d)[i := (payments d ! i)\<lparr>pay_status := Succeeded,
                                                         pay_updatedAt := now e\<rparr>])))"
proof -
  obtain d' cs where h: "handle_event e ev d = (d', cs)" by (cases "handle_event e ev d")
  with assms have r: "stripe_webhook e raw sig d = respond 200 Received d' cs"
    by (simp add: stripe_webhook_def)
  have 1: "response (stripe_webhook e raw sig d) = \<lparr>code = 200, content = Received\<rparr>"
    by (simp add: r respond_def)
  have 2: "store (stripe_webhook e raw sig d) = d"
    if "event_type ev = ''payment_intent.succeeded''"
      "find_idx (\<lambda>p. stripePaymentIntentId p = obj_id (data_object ev)) (payments d) = None"
    using that h handlePaymentSuccess_unmatched [of "data_object ev" d e]
    by (simp add: r respond_def handle_event_def)
  have 3: "ledger (store (stripe_webhook e raw sig d)) = ledger d
          \<and> (event_type ev \<noteq> ''payment_intent.succeeded''
               \<or> is_payment_call (last (calls (stripe_webhook e raw sig d)))
             \<longrightarrow> store (stripe_webhook e raw sig d) = d)
          \<and> (event_type ev = ''payment_intent.succeeded''
               \<and> \<not> is_payment_call (last (calls (stripe_webhook e raw sig d))) \<longrightarrow>
               (\<exists>i. find_idx (\<lambda>p. stripePaymentIntentId p = obj_id (data_object ev))
                       (payments d) = Some i
                  \<and> payments (store (stripe_webhook e raw sig d)) =
                      (payments d)[i := (payments d ! i)\<lparr>pay_status := Succeeded,
                                                         pay_updatedAt := now e\<rparr>]))"
    if "threw e (calls (stripe_webhook e raw sig d))"
    using that h handle_event_threw [of e ev d] by (simp add: r respond_def)
  from 1 2 3 show ?thesis by blast
qed

theorem webhook_swallows_failures_witness:
  "constructEvent sandbox ''payment_intent.succeeded'' (Some ''good'')
     = Inr (event_about_pi_1 ''payment_intent.succeeded'')
   \<and> find_idx (\<lambda>p. stripePaymentIntentId p = ''pi_1'') (payments shop_without_payments) = None
   \<and> store (stripe_webhook sandbox ''payment_intent.succeeded'' (Some ''good'')
        shop_without_payments) = shop_without_payments
   \<and> response (stripe_webhook sandbox ''payment_intent.succeeded'' (Some ''good'')
        shop_without_payments) = \<lparr>code = 200, content = Received\<rparr>
   \<and> constructEvent offline ''payment_intent.succeeded'' (Some ''good'')
     = Inr (event_about_pi_1 ''payment_intent.succeeded'')
   \<and> threw offline (calls (stripe_webhook offline ''payment_intent.succeeded'' (Some ''good'') shop))
   \<and> is_payment_call
       (last (calls (stripe_webhook offline ''payment_intent.succeeded'' (Some ''good'') shop)))
   \<and> store (stripe_webhook offline ''payment_intent.succeeded'' (Some ''good'') shop) = shop
   \<and> response (stripe_webhook offline ''payment_intent.succeeded'' (Some ''good'') shop)
       = \<lparr>code = 200, content = Received\<rparr>"
proof -
  have g1: "constructEvent sandbox ''payment_intent.succeeded'' (Some ''good'')
     = Inr (event_about_pi_1 ''payment_intent.succeeded'')"
    and g2: "constructEvent offline ''payment_intent.succeeded'' (Some ''good'')
     = Inr (event_about_pi_1 ''payment_intent.succeeded'')"
    by (simp_all add: sandbox_def offline_def test_constructEvent_def)
  have k: "event_type (event_about_pi_1 ''payment_intent.succeeded'') = ''payment_intent.succeeded''"
    "obj_id (data_object (event_about_pi_1 ''payment_intent.succeeded'')) = ''pi_1''"
    by (simp_all add: event_about_pi_1_def)
  have u: "find_idx (\<lambda>p. stripePaymentIntentId p = ''pi_1'') (payments shop_without_payments) = None"
    by (simp add: shop_without_payments_def)
  have t: "threw offline (calls (stripe_webhook offline ''payment_intent.succeeded'' (Some ''good'') shop))"
    "is_payment_call
       (last (calls (stripe_webhook offline ''payment_intent.succeeded'' (Some ''good'') shop)))"
    by (simp_all add: webhook_defs threw_def is_payment_call_def example_defs offline_def
        always_def)
  from webhook_swallows_failures [OF g1, of shop_without_payments]
       webhook_swallows_failures [OF g2, of shop] g1 g2 k u t
  show ?thesis by simp
qed

text \<open>
  A payment-succeeded event for a pending payment, with the lookup of the user failing:
  the reply is 200, the handling threw, and the payment is now succeeded although the
  balance is still 10.
\<close>

theorem webhook_late_failure_counterexample:
  "constructEvent flaky ''payment_intent.succeeded'' (Some ''good'')
     = Inr (event_about_pi_1 ''payment_intent.succeeded'')
   \<and> threw flaky (calls (stripe_webhook flaky ''payment_intent.succeeded'' (Some ''good'') shop))
   \<and> response (stripe_webhook flaky ''payment_intent.succeeded'' (Some ''good'') shop)
       = \<lparr>code = 200, content = Received\<rparr>
   \<and> store (stripe_webhook flaky ''payment_intent.succeeded'' (Some ''good'') shop) \<noteq> shop
   \<and> pay_status (payments shop ! 0) = Pending
   \<and> pay_status
       (payments (store (stripe_webhook flaky ''payment_intent.succeeded'' (Some ''good'') shop)) ! 0)
       = Succeeded
   \<and> balance 1 (store (stripe_webhook flaky ''payment_intent.succeeded'' (Some ''good'') shop))
       = Some 10"
  by (simp add: webhook_defs threw_def example_defs flaky_def user_lookup_fails_def
      balance_def)

section \<open>Creating a payment intent\<close>

lemma find_Some_holds: "find P xs = Some x \<Longrightarrow> P x \<and> x \<in> set xs"
  by (induction xs) (auto split: if_splits)

text \<open>
  C5 (as the code has it): when the package id resolves to no package, or to an inactive
  one, or to one whose \<open>expiresAt\<close> is set and in the past, or to one whose \<open>maxPurchases\<close>
  is set, not zero, and reached by the user's succeeded payments for it, the request
  creates no Payment record, makes no call to the payment processor and is not answered
  200. It is answered 400 when Stripe is configured and the lookups do not fail; without
  a Stripe key the first check of the route answers 503.
\<close>

theorem create_payment_intent_rejects_unavailable:
  assumes "case find (\<lambda>p. pkg_id p = packageId) (packages d) of
             None \<Rightarrow> True
           | Some package \<Rightarrow>
               \<not> isActive package
               \<or> (case expiresAt package of None \<Rightarrow> False | Some t \<Rightarrow> t < now e)
               \<or> (case maxPurchases package of
                     None \<Rightarrow> False
                   | Some m \<Rightarrow>
                       m \<noteq> 0 \<and>
                       m \<le> countDocuments
                              (\<lambda>p. pay_user p = uid \<and> pay_packageId p = packageId
                                    \<and> pay_status p = Succeeded)
                              (payments d))"
  shows "store (create_payment_intent e uid packageId d) = d
       \<and> \<not> list_ex is_stripe_call (calls (create_payment_intent e uid packageId d))
       \<and> code (response (create_payment_intent e uid packageId d)) \<noteq> 200
       \<and> (stripe e \<noteq> None \<and> \<not> rejects e (TokenPackage_findById packageId)
            \<and> \<not> rejects e (Payment_countDocuments uid packageId)
          \<longrightarrow> code (response (create_payment_intent e uid packageId d)) = 400)
       \<and> (stripe e = None
          \<longrightarrow> code (response (create_payment_intent e uid packageId d)) = 503)"
proof (cases "find (\<lambda>p. pkg_id p = packageId) (packages d)")
  case None
  then show ?thesis
    by (simp add: create_payment_intent_def respond_def is_stripe_call_def Let_def
        split: option.splits)
next
  case (Some package)
  then have id: "pkg_id package = packageId" using find_Some_holds by fastforce
  from assms Some id show ?thesis
    by (auto simp: create_payment_intent_def respond_def is_stripe_call_def Let_def
        purchase_limit_def split: option.splits)
qed


theorem create_payment_intent_rejects_unavailable_witness:
  "find (\<lambda>p. pkg_id p = 99) (packages shop) = None
   \<and> stripe sandbox \<noteq> None \<and> \<not> rejects sandbox (TokenPackage_findById 99)
   \<and> \<not> rejects sandbox (Payment_countDocuments 1 99)
   \<and> response (create_payment_intent sandbox 1 99 shop)
       = \<lparr>code = 400, content = Message ''Invalid or inactive package selected''\<rparr>
   \<and> store (create_payment_intent sandbox 1 99 shop) = shop
   \<and> \<not> list_ex is_stripe_call (calls (create_payment_intent sandbox 1 99 shop))"
proof -
  have h: "find (\<lambda>p. pkg_id p = 99) (packages shop) = None"
    by (simp add: example_defs)
  then have a: "case find (\<lambda>p. pkg_id p = 99) (packages shop) of
             None \<Rightarrow> True
           | Some package \<Rightarrow>
               \<not> isActive package
               \<or> (case expiresAt package of None \<Rightarrow> False | Some t \<Rightarrow> t < now sandbox)
               \<or> (case maxPurchases package of
                     None \<Rightarrow> False
                   | Some m \<Rightarrow>
                       m \<noteq> 0 \<and>
                       m \<le> countDocuments
                              (\<lambda>p. pay_user p = 1 \<and> pay_packageId p = 99
                                    \<and> pay_status p = Succeeded)
                              (payments shop))"
    by simp
  have e: "stripe sandbox \<noteq> None" "\<not> rejects sandbox (TokenPackage_findById 99)"
    "\<not> rejects sandbox (Payment_countDocuments 1 99)"
    by (simp_all add: sandbox_def never_def)
  have r: "response (create_payment_intent sandbox 1 99 shop)
       = \<lparr>code = 400, content = Message ''Invalid or inactive package selected''\<rparr>"
    by (simp add: create_payment_intent_def respond_def example_defs)
  from create_payment_intent_rejects_unavailable [OF a] h e r show ?thesis by simp
qed

text \<open>
  Without a Stripe key a request for a package id that resolves to nothing is answered
  503, not 400.
\<close>

theorem create_payment_intent_unconfigured_counterexample:
  "find (\<lambda>p. pkg_id p = 99) (packages shop) = None
   \<and> response (create_payment_intent unconfigured 1 99 shop)
       = \<lparr>code = 503, content = Message ''Payment service is not configured''\<rparr>
   \<and> code (response (create_payment_intent unconfigured 1 99 shop)) \<noteq> 400"
  by (simp add: create_payment_intent_def respond_def example_defs unconfigured_def)

text \<open>
  The limit is tested as \<open>if (package.maxPurchases)\<close>: a limit of zero counts as no limit,
  and the intent is created.
\<close>

lemma create_payment_intent_zero_limit_example:
  "find (\<lambda>p. pkg_id p = 7) (packages shop_with_zero_limit) = Some zero_limit
   \<and> maxPurchases zero_limit = Some 0
   \<and> code (response (create_payment_intent sandbox 1 7 shop_with_zero_limit)) = 200
   \<and> list_ex is_stripe_call (calls (create_payment_intent sandbox 1 7 shop_with_zero_limit))
   \<and> length (payments (store (create_payment_intent sandbox 1 7 shop_with_zero_limit)))
       = Suc (length (payments shop_with_zero_limit))"
  by (simp add: create_payment_intent_def respond_def purchase_limit_def is_stripe_call_def
      example_defs zero_limit_def shop_with_zero_limit_def Let_def)




section \<open>Testing a provider\<close>

lemmas manager_defs =
  testProvider_def setProvider_def getProviderStatus_def getProviderConfig_def initialize_def
  getStatus_def new_provider_def spread_def empty_config_def or_num_def or_str_def success_def
  Let_def

lemmas manager_examples =
  idle_manager_def mock_manager_def keyed_manager_def no_manager_config_def test_runtime_def

lemma setProvider_frame:
  "providers (snd (setProvider rt n m)) = providers m \<and> mconfig (snd (setProvider rt n m)) = mconfig m"
  by (simp add: setProvider_def split: option.splits prod.splits)




text \<open>
  Testing the OpenAI provider without an API key: \<open>setProvider\<close> has already assigned the
  pointer when \<open>initialize\<close> throws, and the \<open>catch\<close> branch returns without restoring it.
\<close>

lemma testProvider_failed_initialize_example:
  "fst (testProvider test_runtime ''openai'' mock_manager)
     = Test_failed ''openai'' ''OpenAI API key is required''
   \<and> map_option name (currentProvider mock_manager) = Some ''mock''
   \<and> map_option name (currentProvider (snd (testProvider test_runtime ''openai'' mock_manager)))
       = Some ''openai''
   \<and> map_option initialized
        (currentProvider (snd (testProvider test_runtime ''openai'' mock_manager))) = Some False"
  by (simp add: manager_defs manager_examples)

end
